theory Spec2Isabelle
  imports Complex_Main
begin

section \<open>JavaScript numbers\<close>

text \<open>
  The calculator of \<^verbatim>\<open>src/App.tsx\<close> computes with JavaScript numbers (IEEE 754
  doubles). They are modelled here as an idealised number type: a finite number is an
  exact real, and the three special values that JavaScript arithmetic produces instead of
  raising (\<open>Infinity\<close>, \<open>-Infinity\<close>, \<open>NaN\<close>) are kept, so that a division by zero, the
  logarithm of a non-positive number or a fractional power of a negative number do in
  the model what they do in the program.

  What the idealisation leaves out: arithmetic on finite numbers is exact (no rounding,
  no overflow to \<open>Infinity\<close>, no underflow to zero), and zero carries no sign (a zero
  divisor acts as \<open>+0\<close>). The program's \<open>Math.exp\<close> underflows to 0 below about
  \<open>-745\<close>, and so does a product or quotient below about \<open>5e-324\<close>; the model's do not.
  So an equation between computed numbers that needs exact arithmetic, such as
  \<open>n * p = ni * ni\<close>, is a property of the model only and is not stated of the program.
  What is stated of the program is which operations it applies to which values, which
  branch it takes for the values it has computed, and its results at concrete states
  chosen so that rounding does not change the branch that runs.
\<close>

datatype jsnum = Fin real | PInf | NInf | NaN

fun js_neg :: "jsnum \<Rightarrow> jsnum" where
  "js_neg (Fin x) = Fin (- x)"
| "js_neg PInf = NInf"
| "js_neg NInf = PInf"
| "js_neg NaN = NaN"

fun js_add :: "jsnum \<Rightarrow> jsnum \<Rightarrow> jsnum" where
  "js_add NaN _ = NaN"
| "js_add _ NaN = NaN"
| "js_add (Fin x) (Fin y) = Fin (x + y)"
| "js_add PInf NInf = NaN"
| "js_add NInf PInf = NaN"
| "js_add PInf _ = PInf"
| "js_add _ PInf = PInf"
| "js_add NInf _ = NInf"
| "js_add _ NInf = NInf"

definition js_sub :: "jsnum \<Rightarrow> jsnum \<Rightarrow> jsnum" where
  "js_sub a b = js_add a (js_neg b)"

text \<open>The sign of an infinite product or quotient: \<open>Infinity\<close> when \<open>pos\<close>.\<close>

definition js_inf :: "bool \<Rightarrow> jsnum" where
  "js_inf pos = (if pos then PInf else NInf)"

fun js_mul :: "jsnum \<Rightarrow> jsnum \<Rightarrow> jsnum" where
  "js_mul NaN _ = NaN"
| "js_mul _ NaN = NaN"
| "js_mul (Fin x) (Fin y) = Fin (x * y)"
| "js_mul (Fin x) PInf = (if x = 0 then NaN else js_inf (0 < x))"
| "js_mul (Fin x) NInf = (if x = 0 then NaN else js_inf (x < 0))"
| "js_mul PInf (Fin y) = (if y = 0 then NaN else js_inf (0 < y))"
| "js_mul NInf (Fin y) = (if y = 0 then NaN else js_inf (y < 0))"
| "js_mul PInf PInf = PInf"
| "js_mul PInf NInf = NInf"
| "js_mul NInf PInf = NInf"
| "js_mul NInf NInf = PInf"

fun js_div :: "jsnum \<Rightarrow> jsnum \<Rightarrow> jsnum" where
  "js_div NaN _ = NaN"
| "js_div _ NaN = NaN"
| "js_div (Fin x) (Fin y) =
     (if y = 0 then (if x = 0 then NaN else js_inf (0 < x)) else Fin (x / y))"
| "js_div (Fin x) PInf = Fin 0"
| "js_div (Fin x) NInf = Fin 0"
| "js_div PInf (Fin y) = js_inf (0 \<le> y)"
| "js_div NInf (Fin y) = js_inf (y < 0)"
| "js_div PInf PInf = NaN"
| "js_div PInf NInf = NaN"
| "js_div NInf PInf = NaN"
| "js_div NInf NInf = NaN"

text \<open>The comparisons \<open><\<close> and \<open>>\<close>: false as soon as one side is \<open>NaN\<close>.\<close>

fun js_lt :: "jsnum \<Rightarrow> jsnum \<Rightarrow> bool" where
  "js_lt NaN _ = False"
| "js_lt _ NaN = False"
| "js_lt (Fin x) (Fin y) = (x < y)"
| "js_lt _ NInf = False"
| "js_lt PInf _ = False"
| "js_lt NInf _ = True"
| "js_lt _ PInf = True"

definition js_gt :: "jsnum \<Rightarrow> jsnum \<Rightarrow> bool" where
  "js_gt a b = js_lt b a"

subsection \<open>The functions of \<open>Math\<close> that the calculator calls\<close>

fun Math_abs :: "jsnum \<Rightarrow> jsnum" where
  "Math_abs (Fin x) = Fin \<bar>x\<bar>"
| "Math_abs PInf = PInf"
| "Math_abs NInf = PInf"
| "Math_abs NaN = NaN"

fun Math_sqrt :: "jsnum \<Rightarrow> jsnum" where
  "Math_sqrt (Fin x) = (if x < 0 then NaN else Fin (sqrt x))"
| "Math_sqrt PInf = PInf"
| "Math_sqrt NInf = NaN"
| "Math_sqrt NaN = NaN"

fun Math_exp :: "jsnum \<Rightarrow> jsnum" where
  "Math_exp (Fin x) = Fin (exp x)"
| "Math_exp PInf = PInf"
| "Math_exp NInf = Fin 0"
| "Math_exp NaN = NaN"

fun Math_log :: "jsnum \<Rightarrow> jsnum" where
  "Math_log (Fin x) = (if x < 0 then NaN else if x = 0 then NInf else Fin (ln x))"
| "Math_log PInf = PInf"
| "Math_log NInf = NaN"
| "Math_log NaN = NaN"

definition is_integral :: "real \<Rightarrow> bool" where
  "is_integral y = (y = of_int \<lfloor>y\<rfloor>)"

definition is_odd_integer :: "real \<Rightarrow> bool" where
  "is_odd_integer y = (is_integral y \<and> odd \<lfloor>y\<rfloor>)"

text \<open>
  \<open>Math.pow(base, exponent)\<close>, in the order of the cases of ECMAScript's
  \<open>Number::exponentiate\<close>.
\<close>

fun Math_pow :: "jsnum \<Rightarrow> jsnum \<Rightarrow> jsnum" where
  "Math_pow _ NaN = NaN"
| "Math_pow b (Fin y) =
     (if y = 0 then Fin 1
      else case b of
        NaN \<Rightarrow> NaN
      | PInf \<Rightarrow> (if 0 < y then PInf else Fin 0)
      | NInf \<Rightarrow> (if 0 < y then (if is_odd_integer y then NInf else PInf) else Fin 0)
      | Fin x \<Rightarrow>
          (if x = 0 then (if 0 < y then Fin 0 else PInf)
           else if 0 < x then Fin (x powr y)
           else if is_integral y then Fin (x powi \<lfloor>y\<rfloor>)
           else NaN))"
| "Math_pow b PInf =
     (case b of
        NaN \<Rightarrow> NaN
      | PInf \<Rightarrow> PInf
      | NInf \<Rightarrow> PInf
      | Fin x \<Rightarrow> (if 1 < \<bar>x\<bar> then PInf else if \<bar>x\<bar> = 1 then NaN else Fin 0))"
| "Math_pow b NInf =
     (case b of
        NaN \<Rightarrow> NaN
      | PInf \<Rightarrow> Fin 0
      | NInf \<Rightarrow> Fin 0
      | Fin x \<Rightarrow> (if 1 < \<bar>x\<bar> then Fin 0 else if \<bar>x\<bar> = 1 then NaN else PInf))"

subsection \<open>The operator \<open>>>\<close> and truthiness\<close>

text \<open>
  \<open>a >> b\<close> converts \<open>a\<close> with \<open>ToInt32\<close> and \<open>b\<close> with \<open>ToUint32\<close>: the number is
  truncated towards zero and reduced modulo \<open>2^32\<close> (a non-finite number becomes 0); the
  left operand is then read as a signed 32-bit integer and shifted arithmetically by the
  low five bits of the right operand.
\<close>

definition js_trunc :: "real \<Rightarrow> int" where
  "js_trunc x = (if x < 0 then \<lceil>x\<rceil> else \<lfloor>x\<rfloor>)"

fun ToUint32 :: "jsnum \<Rightarrow> int" where
  "ToUint32 (Fin x) = js_trunc x mod 2 ^ 32"
| "ToUint32 _ = 0"

definition ToInt32 :: "jsnum \<Rightarrow> int" where
  "ToInt32 a = (let m = ToUint32 a in if 2 ^ 31 \<le> m then m - 2 ^ 32 else m)"

definition js_shr :: "jsnum \<Rightarrow> jsnum \<Rightarrow> jsnum" where
  "js_shr a b = Fin (of_int (ToInt32 a div 2 ^ nat (ToUint32 b mod 32)))"

text \<open>The condition of an \<open>if\<close> on a number: false for \<open>0\<close> and \<open>NaN\<close>.\<close>

fun ToBoolean :: "jsnum \<Rightarrow> bool" where
  "ToBoolean (Fin x) = (x \<noteq> 0)"
| "ToBoolean NaN = False"
| "ToBoolean _ = True"

section \<open>The calculator\<close>

record MaterialProperties =
  name :: string
  bandgap :: jsnum
  Nc300 :: jsnum
  Nv300 :: jsnum
  temperatureCoeff :: jsnum

text \<open>
  The state of the component that \<open>calculateConcentrations\<close> reads. \<open>selectedMaterial\<close>
  is only ever set to the index of an option of the material selector, so it is a
  natural number here.
\<close>

record app_state =
  materials :: "MaterialProperties list"
  selectedMaterial :: nat
  temperature :: jsnum
  donorConc :: jsnum
  acceptorConc :: jsnum
  kB :: jsnum

text \<open>The object passed to \<open>setResults\<close>; its fields are \<open>ni\<close>, \<open>n\<close>, \<open>p\<close>,
  \<open>fermiLevel\<close> and \<open>conductionType\<close> in the source.\<close>

record results =
  r_ni :: jsnum
  r_n :: jsnum
  r_p :: jsnum
  r_fermiLevel :: jsnum
  r_conductionType :: string

text \<open>
  Nothing in \<open>calculateConcentrations\<close> raises, except the read of a field of
  \<open>materials[selectedMaterial]\<close> when the index is outside the list (the element is
  \<open>undefined\<close> then).
\<close>

datatype error = TypeError

definition calculateConcentrations :: "app_state \<Rightarrow> error + results" where
  "calculateConcentrations st =
    (if selectedMaterial st < length (materials st) then
       let material = materials st ! selectedMaterial st;
           Eg = js_add (bandgap material)
                  (js_mul (temperatureCoeff material) (js_sub (temperature st) (Fin 300)));
           tempRatio = js_div (temperature st) (Fin 300);
           Nc = js_mul (Nc300 material) (Math_pow tempRatio (Fin 1.5));
           Nv = js_mul (Nv300 material) (Math_pow tempRatio (Fin 1.5));
           ni = js_mul (Math_sqrt (js_mul Nc Nv))
                  (Math_exp (js_div (js_neg Eg)
                     (js_mul (js_mul (Fin 2) (kB st)) (temperature st))));
           netDoping = js_sub (donorConc st) (acceptorConc st)
       in
         if js_lt (Math_abs netDoping) ni then
           Inr \<lparr>r_ni = ni, r_n = ni, r_p = ni, r_fermiLevel = Fin 0,
                r_conductionType = ''Intrinsic''\<rparr>
         else if js_gt netDoping (Fin 0) then
           let n = (if ToBoolean (js_shr netDoping ni) then netDoping
                    else
                      let discriminant =
                            Math_sqrt (js_add (js_mul netDoping netDoping)
                                         (js_mul (js_mul (Fin 4) ni) ni))
                      in js_div (js_add netDoping discriminant) (Fin 2));
               p = js_div (js_mul ni ni) n
           in Inr \<lparr>r_ni = ni, r_n = n, r_p = p,
                   r_fermiLevel = js_mul (js_mul (kB st) (temperature st))
                                    (Math_log (js_div n ni)),
                   r_conductionType = ''n-type''\<rparr>
         else
           let netAcceptor = Math_abs netDoping;
               p = (if ToBoolean (js_shr netAcceptor ni) then netAcceptor
                    else
                      let discriminant =
                            Math_sqrt (js_add (js_mul netAcceptor netAcceptor)
                                         (js_mul (js_mul (Fin 4) ni) ni))
                      in js_div (js_add netAcceptor discriminant) (Fin 2));
               n = js_div (js_mul ni ni) p
           in Inr \<lparr>r_ni = ni, r_n = n, r_p = p,
                   r_fermiLevel = js_mul (js_mul (js_neg (kB st)) (temperature st))
                                    (Math_log (js_div p ni)),
                   r_conductionType = ''p-type''\<rparr>
     else Inl TypeError)"

text \<open>
  The values the component starts from: \<open>defaultMaterials\<close> and the initial values of
  \<open>useState\<close>.
\<close>

definition defaultMaterials :: "MaterialProperties list" where
  "defaultMaterials =
     [\<lparr>name = ''Silicon'', bandgap = Fin 1.12,
       Nc300 = Fin (2.8 * 10 ^ 19), Nv300 = Fin (1.04 * 10 ^ 19),
       temperatureCoeff = Fin (- 2.73 / 10 ^ 4)\<rparr>,
      \<lparr>name = ''Germanium'', bandgap = Fin 0.66,
       Nc300 = Fin (1.04 * 10 ^ 19), Nv300 = Fin (6.0 * 10 ^ 18),
       temperatureCoeff = Fin (- 3.9 / 10 ^ 4)\<rparr>,
      \<lparr>name = ''GaAs'', bandgap = Fin 1.42,
       Nc300 = Fin (4.7 * 10 ^ 17), Nv300 = Fin (7.0 * 10 ^ 18),
       temperatureCoeff = Fin (- 5.4 / 10 ^ 4)\<rparr>]"

definition initial_state :: app_state where
  "initial_state =
     \<lparr>materials = defaultMaterials, selectedMaterial = 0, temperature = Fin 300,
      donorConc = Fin (10 ^ 16), acceptorConc = Fin 0, kB = Fin (8.617 / 10 ^ 5)\<rparr>"

text \<open>
  A state the constants editor and the donor field lead to from the initial one: the
  bandgap of the first material set to 0, both of its densities of states set to \<open>c\<close>,
  and the donor concentration set to \<open>d\<close>. At 300 K its intrinsic concentration is
  \<open>c\<close>, with no rounding in the program when \<open>c * c\<close> is a double.
\<close>

definition edited_state :: "real \<Rightarrow> real \<Rightarrow> app_state" where
  "edited_state c d =
     initial_state
       \<lparr>materials :=
          (materials initial_state)
            [0 := \<lparr>name = ''Silicon'', bandgap = Fin 0, Nc300 = Fin c, Nv300 = Fin c,
                   temperatureCoeff = Fin (- 2.73 / 10 ^ 4)\<rparr>],
        donorConc := Fin d\<rparr>"

text \<open>
  Another state the constants editor leads to: the conduction-band density of states of
  the first material set to 0 (an emptied field is read as 0), and the donor and the
  acceptor concentration both set to \<open>d\<close>. Its intrinsic concentration is 0, in the
  program as in the model.
\<close>

definition degenerate_state :: "real \<Rightarrow> app_state" where
  "degenerate_state d =
     initial_state
       \<lparr>materials :=
          (materials initial_state)
            [0 := \<lparr>name = ''Silicon'', bandgap = Fin 1.12, Nc300 = Fin 0,
                   Nv300 = Fin (1.04 * 10 ^ 19),
                   temperatureCoeff = Fin (- 2.73 / 10 ^ 4)\<rparr>],
        donorConc := Fin d, acceptorConc := Fin d\<rparr>"

section \<open>The steps of the calculation\<close>

text \<open>
  The intrinsic concentration and the net doping as the source computes them, before it
  branches: every branch stores this \<open>ni\<close> in the result.
\<close>

definition ni_js :: "app_state \<Rightarrow> jsnum" where
  "ni_js st =
     (let material = materials st ! selectedMaterial st;
          Eg = js_add (bandgap material)
                 (js_mul (temperatureCoeff material) (js_sub (temperature st) (Fin 300)));
          tempRatio = js_div (temperature st) (Fin 300);
          Nc = js_mul (Nc300 material) (Math_pow tempRatio (Fin 1.5));
          Nv = js_mul (Nv300 material) (Math_pow tempRatio (Fin 1.5))
      in js_mul (Math_sqrt (js_mul Nc Nv))
           (Math_exp (js_div (js_neg Eg)
              (js_mul (js_mul (Fin 2) (kB st)) (temperature st)))))"

definition netDoping_js :: "app_state \<Rightarrow> jsnum" where
  "netDoping_js st = js_sub (donorConc st) (acceptorConc st)"

text \<open>
  The three-way branch of the source, as a function of the \<open>ni\<close> and the \<open>netDoping\<close> it
  has computed; \<open>calc_regime\<close> below proves that \<open>calculateConcentrations\<close> is this branch
  applied to \<open>ni_js\<close> and \<open>netDoping_js\<close>. A property of \<open>regime\<close> for every \<open>ni\<close> holds
  whatever value the program has computed for \<open>ni\<close>.
\<close>

definition regime :: "jsnum \<Rightarrow> jsnum \<Rightarrow> jsnum \<Rightarrow> jsnum \<Rightarrow> results" where
  "regime ni netDoping k T =
     (if js_lt (Math_abs netDoping) ni then
        \<lparr>r_ni = ni, r_n = ni, r_p = ni, r_fermiLevel = Fin 0,
         r_conductionType = ''Intrinsic''\<rparr>
      else if js_gt netDoping (Fin 0) then
        let n = (if ToBoolean (js_shr netDoping ni) then netDoping
                 else
                   let discriminant =
                         Math_sqrt (js_add (js_mul netDoping netDoping)
                                      (js_mul (js_mul (Fin 4) ni) ni))
                   in js_div (js_add netDoping discriminant) (Fin 2));
            p = js_div (js_mul ni ni) n
        in \<lparr>r_ni = ni, r_n = n, r_p = p,
            r_fermiLevel = js_mul (js_mul k T) (Math_log (js_div n ni)),
            r_conductionType = ''n-type''\<rparr>
      else
        let netAcceptor = Math_abs netDoping;
            p = (if ToBoolean (js_shr netAcceptor ni) then netAcceptor
                 else
                   let discriminant =
                         Math_sqrt (js_add (js_mul netAcceptor netAcceptor)
                                      (js_mul (js_mul (Fin 4) ni) ni))
                   in js_div (js_add netAcceptor discriminant) (Fin 2));
            n = js_div (js_mul ni ni) p
        in \<lparr>r_ni = ni, r_n = n, r_p = p,
            r_fermiLevel = js_mul (js_mul (js_neg k) T) (Math_log (js_div p ni)),
            r_conductionType = ''p-type''\<rparr>)"

section \<open>The result on finite numbers\<close>

text \<open>
  When every input is a finite number, the temperature, the Boltzmann constant and both
  densities of states positive, every intermediate value of \<open>calculateConcentrations\<close>
  is finite in the model; the three definitions below are the values the model computes
  there, as real numbers, and \<open>calc_finite\<close> proves that they are.
\<close>

definition ni_real :: "real \<Rightarrow> real \<Rightarrow> real \<Rightarrow> real \<Rightarrow> real \<Rightarrow> real \<Rightarrow> real" where
  "ni_real eg tc nc nv k T =
     sqrt (nc * (T / 300) powr 1.5 * (nv * (T / 300) powr 1.5))
       * exp (- (eg + tc * (T - 300)) / (2 * k * T))"

definition majority :: "real \<Rightarrow> real \<Rightarrow> real" where
  "majority x ni =
     (if ToBoolean (js_shr (Fin x) (Fin ni)) then x
      else (x + sqrt (x * x + 4 * ni * ni)) / 2)"

definition finite_results :: "real \<Rightarrow> real \<Rightarrow> real \<Rightarrow> real \<Rightarrow> results" where
  "finite_results k T ni nd =
     (if \<bar>nd\<bar> < ni then
        \<lparr>r_ni = Fin ni, r_n = Fin ni, r_p = Fin ni, r_fermiLevel = Fin 0,
         r_conductionType = ''Intrinsic''\<rparr>
      else if 0 < nd then
        \<lparr>r_ni = Fin ni, r_n = Fin (majority nd ni), r_p = Fin (ni * ni / majority nd ni),
         r_fermiLevel = Fin (k * T * ln (majority nd ni / ni)),
         r_conductionType = ''n-type''\<rparr>
      else
        \<lparr>r_ni = Fin ni, r_n = Fin (ni * ni / majority \<bar>nd\<bar> ni),
         r_p = Fin (majority \<bar>nd\<bar> ni),
         r_fermiLevel = Fin (- k * T * ln (majority \<bar>nd\<bar> ni / ni)),
         r_conductionType = ''p-type''\<rparr>)"

lemma ni_real_pos: "0 < nc \<Longrightarrow> 0 < nv \<Longrightarrow> 0 < T \<Longrightarrow> 0 < ni_real eg tc nc nv k T"
  by (simp add: ni_real_def)

lemma majority_ge: "0 < x \<Longrightarrow> x \<le> majority x ni"
proof -
  assume x: "0 < x"
  have "x * x \<le> x * x + 4 * ni * ni" by (simp add: mult.assoc)
  then have "sqrt (x * x) \<le> sqrt (x * x + 4 * ni * ni)" by (rule real_sqrt_le_mono)
  then have "x \<le> sqrt (x * x + 4 * ni * ni)" using x by simp
  then show ?thesis by (simp add: majority_def)
qed

lemma majority_pos: "0 < x \<Longrightarrow> 0 < majority x ni"
  using majority_ge [of x ni] by linarith

lemma calc_finite:
  assumes idx: "selectedMaterial st < length (materials st)"
    and eg: "bandgap (materials st ! selectedMaterial st) = Fin eg"
    and tc: "temperatureCoeff (materials st ! selectedMaterial st) = Fin tc"
    and nc: "Nc300 (materials st ! selectedMaterial st) = Fin nc"
    and nv: "Nv300 (materials st ! selectedMaterial st) = Fin nv"
    and T: "temperature st = Fin T" and k: "kB st = Fin k"
    and d: "donorConc st = Fin d" and a: "acceptorConc st = Fin a"
    and pos: "0 < T" "0 < k" "0 < nc" "0 < nv"
  shows "calculateConcentrations st =
           Inr (finite_results k T (ni_real eg tc nc nv k T) (d - a))"
proof -
  let ?ni = "ni_real eg tc nc nv k T"
  let ?nd = "d - a"
  have ni: "0 < ?ni" using pos by (simp add: ni_real_pos)
  have ratio: "0 < T / 300" using pos by simp
  have pw: "Math_pow (js_div (Fin T) (Fin 300)) (Fin 1.5) = Fin ((T / 300) powr 1.5)"
    using ratio by simp
  have prod: "\<not> nc * (T / 300) powr 1.5 * (nv * (T / 300) powr 1.5) < 0"
    using pos by (simp add: not_less)
  have den: "2 * k * T \<noteq> 0" using pos by simp
  have ni_eq: "js_mul (Math_sqrt (js_mul (js_mul (Fin nc) (Fin ((T / 300) powr 1.5)))
                   (js_mul (Fin nv) (Fin ((T / 300) powr 1.5)))))
                 (Math_exp (js_div (js_neg (js_add (Fin eg)
                    (js_mul (Fin tc) (js_sub (Fin T) (Fin 300)))))
                    (js_mul (js_mul (Fin 2) (Fin k)) (Fin T)))) = Fin ?ni"
    using prod den by (simp add: ni_real_def js_sub_def)
  have disc: "\<not> x * x + 4 * ?ni * ?ni < 0" for x :: real
    by (simp add: not_less mult.assoc)
  have maj: "(if ToBoolean (js_shr (Fin x) (Fin ?ni)) then Fin x
              else js_div (js_add (Fin x) (Math_sqrt (js_add (js_mul (Fin x) (Fin x))
                     (js_mul (js_mul (Fin 4) (Fin ?ni)) (Fin ?ni))))) (Fin 2))
             = Fin (majority x ?ni)" for x
    using disc [of x] by (simp add: majority_def)
  have mpos: "0 < majority x ?ni" if "0 < x" for x
    using that by (rule majority_pos)
  have nd_eq: "js_sub (Fin d) (Fin a) = Fin ?nd" by (simp add: js_sub_def)
  have step: "calculateConcentrations st =
      (if js_lt (Fin \<bar>?nd\<bar>) (Fin ?ni) then
           Inr \<lparr>r_ni = Fin ?ni, r_n = Fin ?ni, r_p = Fin ?ni, r_fermiLevel = Fin 0,
                r_conductionType = ''Intrinsic''\<rparr>
         else if js_gt (Fin ?nd) (Fin 0) then
           Inr \<lparr>r_ni = Fin ?ni, r_n = Fin (majority ?nd ?ni),
                r_p = js_div (js_mul (Fin ?ni) (Fin ?ni)) (Fin (majority ?nd ?ni)),
                r_fermiLevel = js_mul (js_mul (Fin k) (Fin T))
                                 (Math_log (js_div (Fin (majority ?nd ?ni)) (Fin ?ni))),
                r_conductionType = ''n-type''\<rparr>
         else
           Inr \<lparr>r_ni = Fin ?ni,
                r_n = js_div (js_mul (Fin ?ni) (Fin ?ni)) (Fin (majority \<bar>?nd\<bar> ?ni)),
                r_p = Fin (majority \<bar>?nd\<bar> ?ni),
                r_fermiLevel = js_mul (js_mul (js_neg (Fin k)) (Fin T))
                                 (Math_log (js_div (Fin (majority \<bar>?nd\<bar> ?ni)) (Fin ?ni))),
                r_conductionType = ''p-type''\<rparr>)"
    using idx
    by (simp only: calculateConcentrations_def Let_def eg tc nc nv T k d a pw ni_eq if_True
        maj nd_eq Math_abs.simps)
  show ?thesis
  proof (cases "\<bar>?nd\<bar> < ?ni")
    case True
    then show ?thesis
      unfolding step by (simp add: finite_results_def js_sub_def)
  next
    case False
    note notin = this
    show ?thesis
    proof (cases "0 < ?nd")
      case True
      have m: "0 < majority ?nd ?ni" using mpos [OF True] .
      have q: "0 < majority ?nd ?ni / ?ni" using m ni by simp
      show ?thesis
        unfolding step using notin True m q ni
        by (simp add: finite_results_def js_gt_def divide_less_0_iff)
    next
      case False
      then have neg: "?nd < 0" using notin ni by linarith
      then have ab: "0 < \<bar>?nd\<bar>" by simp
      have m: "0 < majority \<bar>?nd\<bar> ?ni" using mpos [OF ab] .
      have q: "0 < majority \<bar>?nd\<bar> ?ni / ?ni" using m ni by simp
      show ?thesis
        unfolding step using notin False m q ni
        by (simp add: finite_results_def js_gt_def divide_less_0_iff)
    qed
  qed
qed

section \<open>The branches\<close>

lemma calc_returns:
  "selectedMaterial st < length (materials st) \<Longrightarrow>
     \<exists>r. calculateConcentrations st = Inr r \<and> r_ni r = ni_js st"
  by (simp add: calculateConcentrations_def ni_js_def Let_def)

lemma calc_intrinsic:
  "selectedMaterial st < length (materials st) \<Longrightarrow>
   js_lt (Math_abs (netDoping_js st)) (ni_js st) \<Longrightarrow>
   calculateConcentrations st =
     Inr \<lparr>r_ni = ni_js st, r_n = ni_js st, r_p = ni_js st, r_fermiLevel = Fin 0,
          r_conductionType = ''Intrinsic''\<rparr>"
  by (simp add: calculateConcentrations_def ni_js_def netDoping_js_def Let_def)

lemma calc_regime:
  "selectedMaterial st < length (materials st) \<Longrightarrow>
   calculateConcentrations st =
     Inr (regime (ni_js st) (netDoping_js st) (kB st) (temperature st))"
  by (simp add: calculateConcentrations_def regime_def ni_js_def netDoping_js_def Let_def)



lemma js_mul_neg_left: "js_mul (js_neg a) b = js_neg (js_mul a b)"
  by (cases a; cases b) (auto simp add: js_inf_def)

lemma js_neg_neg: "js_neg (js_neg a) = a"
  by (cases a) simp_all

lemma regime_swap:
  assumes "nd \<noteq> 0"
  shows "r_n (regime ni (Fin (- nd)) k T) = r_p (regime ni (Fin nd) k T) \<and>
         r_p (regime ni (Fin (- nd)) k T) = r_n (regime ni (Fin nd) k T) \<and>
         r_ni (regime ni (Fin (- nd)) k T) = r_ni (regime ni (Fin nd) k T) \<and>
         r_fermiLevel (regime ni (Fin (- nd)) k T)
           = js_neg (r_fermiLevel (regime ni (Fin nd) k T)) \<and>
         (r_conductionType (regime ni (Fin nd) k T) = ''Intrinsic'' \<longrightarrow>
            r_conductionType (regime ni (Fin (- nd)) k T) = ''Intrinsic'') \<and>
         (r_conductionType (regime ni (Fin nd) k T) = ''n-type'' \<longrightarrow>
            r_conductionType (regime ni (Fin (- nd)) k T) = ''p-type'') \<and>
         (r_conductionType (regime ni (Fin nd) k T) = ''p-type'' \<longrightarrow>
            r_conductionType (regime ni (Fin (- nd)) k T) = ''n-type'')"
proof (cases "js_lt (Fin \<bar>nd\<bar>) ni")
  case True
  then show ?thesis by (simp add: regime_def)
next
  case False
  from assms consider "0 < nd" | "nd < 0" by linarith
  then show ?thesis
  proof cases
    case 1
    then have "\<bar>nd\<bar> = nd" by simp
    with 1 False show ?thesis
      by (simp add: regime_def js_gt_def Let_def js_mul_neg_left js_neg_neg)
  next
    case 2
    then have "\<bar>nd\<bar> = - nd" by simp
    with 2 False show ?thesis
      by (simp add: regime_def js_gt_def Let_def js_mul_neg_left js_neg_neg)
  qed
qed

lemma js_sub_shift: "js_sub (js_add d (Fin c)) (js_add a (Fin c)) = js_sub d a"
  by (cases d; cases a) (simp_all add: js_sub_def)

section \<open>Evaluation at concrete states\<close>

lemma ni_real_unit: "0 \<le> c \<Longrightarrow> ni_real 0 tc c c k 300 = c"
  by (simp add: ni_real_def)

lemma edited_calc:
  assumes "0 < c"
  shows "calculateConcentrations (edited_state c d) =
           Inr (finite_results (8.617 / 10 ^ 5) 300 c d)"
proof -
  have "calculateConcentrations (edited_state c d) =
          Inr (finite_results (8.617 / 10 ^ 5) 300
                 (ni_real 0 (- 2.73 / 10 ^ 4) c c (8.617 / 10 ^ 5) 300) (d - 0))"
    using assms
    by (intro calc_finite)
       (simp_all add: edited_state_def initial_state_def defaultMaterials_def)
  then show ?thesis using assms by (simp add: ni_real_unit)
qed

lemma shr_2_1: "ToBoolean (js_shr (Fin 2) (Fin 1))"
  by (simp add: js_shr_def ToInt32_def js_trunc_def)

lemma shr_big: "\<not> ToBoolean (js_shr (Fin (2 ^ 32)) (Fin 1))"
  by (simp add: js_shr_def ToInt32_def js_trunc_def)

lemma shr_33: "ToBoolean (js_shr (Fin 33) (Fin 33))"
  by (simp add: js_shr_def ToInt32_def js_trunc_def)

lemma shr_a: "\<not> ToBoolean (js_shr (Fin (27 / 16)) (Fin (9 / 8)))"
  by (simp add: js_shr_def ToInt32_def js_trunc_def)

lemma shr_b: "ToBoolean (js_shr (Fin 2) (Fin (9 / 8)))"
  by (simp add: js_shr_def ToInt32_def js_trunc_def)

lemma sqrt_2025_256: "sqrt (2025 / 256) = 45 / 16"
  by (rule real_sqrt_unique) (simp_all add: power2_eq_square)

lemma exp_22_le: "exp (22::real) \<le> 3 ^ 22"
proof -
  have "exp (22::real) = exp 1 ^ 22" using exp_of_nat_mult [of 22 "1::real"] by simp
  also have "\<dots> \<le> 3 ^ 22" by (rule power_mono) (simp_all add: exp_le)
  finally show ?thesis .
qed

lemma silicon_ni_gt_1:
  "1 < ni_real 1.12 (- 2.73 / 10 ^ 4) (2.8 * 10 ^ 19) (1.04 * 10 ^ 19) (8.617 / 10 ^ 5) 300"
proof -
  let ?x = "1.12 / (2 * (8.617 / 10 ^ 5) * 300) :: real"
  have x: "?x \<le> 22" by simp
  have "exp ?x \<le> exp 22" using x by (simp only: exp_le_cancel_iff)
  with exp_22_le have e: "exp ?x \<le> 3 ^ 22" by linarith
  have "exp (- ?x) = 1 / exp ?x" by (simp add: exp_minus inverse_eq_divide)
  moreover have "1 / 3 ^ 22 \<le> 1 / exp ?x"
    using e by (intro divide_left_mono) simp_all
  ultimately have lo: "1 / 3 ^ 22 \<le> exp (- ?x)" by simp
  have "(10 ^ 19)\<^sup>2 \<le> (2.8 * 10 ^ 19 * (1.04 * 10 ^ 19) :: real)" by simp
  then have s: "10 ^ 19 \<le> sqrt (2.8 * 10 ^ 19 * (1.04 * 10 ^ 19) :: real)"
    by (rule real_le_rsqrt)
  have "1 < (10 ^ 19 :: real) * (1 / 3 ^ 22)" by simp
  also have "\<dots> \<le> sqrt (2.8 * 10 ^ 19 * (1.04 * 10 ^ 19)) * exp (- ?x)"
    using s lo by (intro mult_mono) simp_all
  finally show ?thesis by (simp add: ni_real_def)
qed

lemma js_mul_NaN_right: "js_mul x NaN = NaN"
  by (cases x) simp_all

lemma degenerate_calc:
  "calculateConcentrations (degenerate_state d) =
     Inr \<lparr>r_ni = Fin 0, r_n = NaN, r_p = Fin 0, r_fermiLevel = NaN,
          r_conductionType = ''p-type''\<rparr>"
proof -
  have idx: "selectedMaterial (degenerate_state d) < length (materials (degenerate_state d))"
    by (simp add: degenerate_state_def initial_state_def defaultMaterials_def)
  have ni: "ni_js (degenerate_state d) = Fin 0"
    by (simp add: ni_js_def degenerate_state_def initial_state_def defaultMaterials_def
        js_sub_def Let_def)
  have nd: "netDoping_js (degenerate_state d) = Fin 0"
    by (simp add: netDoping_js_def degenerate_state_def js_sub_def)
  have sh: "\<not> ToBoolean (js_shr (Fin 0) (Fin 0))"
    by (simp add: js_shr_def ToInt32_def js_trunc_def)
  show ?thesis
    unfolding calc_regime [OF idx] ni nd
    using sh by (simp add: regime_def js_gt_def Let_def js_mul_NaN_right)
qed

lemma finite_results_ni: "r_ni (finite_results k T ni nd) = Fin ni"
  by (simp add: finite_results_def)

lemma majority_exact_gt:
  assumes "0 < ni" "0 < x" "\<not> ToBoolean (js_shr (Fin x) (Fin ni))"
  shows "majority x ni = (x + sqrt (x * x + 4 * ni * ni)) / 2" "x < majority x ni"
proof -
  show e: "majority x ni = (x + sqrt (x * x + 4 * ni * ni)) / 2"
    using assms(3) by (simp add: majority_def)
  have "x * x < x * x + 4 * ni * ni" using assms(1) by (simp add: mult.assoc)
  then have "sqrt (x * x) < sqrt (x * x + 4 * ni * ni)" by (rule real_sqrt_less_mono)
  then have "x < sqrt (x * x + 4 * ni * ni)" using assms(2) by simp
  then show "x < majority x ni" unfolding e by simp
qed

section \<open>The mass-action law\<close>




section \<open>The intrinsic concentration\<close>

text \<open>
  Claim C4. For every input with finite material parameters and \<open>T > 0\<close>, \<open>kB > 0\<close>,
  whatever the doping, the solver returns a result whose intrinsic concentration is
  \<open>sqrt (Nc * Nv) * exp (- Eg / (2 * kB * T))\<close> with the bandgap
  \<open>Eg = bandgap + temperatureCoeff * (T - 300)\<close>, not clamped, and the densities
  \<open>Nc = Nc300 * (T / 300) ^ 1.5\<close> and \<open>Nv = Nv300 * (T / 300) ^ 1.5\<close>. The square root
  is the one of \<open>Math\<close>, which is \<open>NaN\<close> on a negative product.
\<close>

theorem intrinsic_concentration_formula:
  assumes idx: "selectedMaterial st < length (materials st)"
    and eg: "bandgap (materials st ! selectedMaterial st) = Fin eg"
    and tc: "temperatureCoeff (materials st ! selectedMaterial st) = Fin tc"
    and nc: "Nc300 (materials st ! selectedMaterial st) = Fin nc"
    and nv: "Nv300 (materials st ! selectedMaterial st) = Fin nv"
    and T: "temperature st = Fin T" and k: "kB st = Fin k"
    and pos: "0 < T" "0 < k"
  shows "\<exists>r. calculateConcentrations st = Inr r \<and>
           r_ni r =
             (let Eg = eg + tc * (T - 300);
                  Nc = nc * (T / 300) powr 1.5;
                  Nv = nv * (T / 300) powr 1.5
              in js_mul (Math_sqrt (Fin (Nc * Nv))) (Fin (exp (- Eg / (2 * k * T)))))"
proof -
  have ratio: "0 < T / 300" using pos by simp
  have pw: "Math_pow (js_div (Fin T) (Fin 300)) (Fin 1.5) = Fin ((T / 300) powr 1.5)"
    using ratio by simp
  have den: "js_mul (js_mul (Fin 2) (Fin k)) (Fin T) = Fin (2 * k * T)" by simp
  have nz: "2 * k * T \<noteq> 0" using pos by simp
  have ex: "js_div (js_neg (js_add (Fin eg) (js_mul (Fin tc) (js_sub (Fin T) (Fin 300)))))
              (Fin (2 * k * T)) = Fin (- (eg + tc * (T - 300)) / (2 * k * T))"
    using nz by (simp add: js_sub_def)
  have "ni_js st =
      js_mul (Math_sqrt (Fin (nc * (T / 300) powr 1.5 * (nv * (T / 300) powr 1.5))))
        (Fin (exp (- (eg + tc * (T - 300)) / (2 * k * T))))"
    by (simp only: ni_js_def Let_def eg tc nc nv T k pw den ex js_mul.simps Math_exp.simps)
  with calc_returns [OF idx] show ?thesis by (simp only: Let_def)
qed

text \<open>The formula at the initial state: silicon at 300 K.\<close>

theorem intrinsic_concentration_formula_witness:
  "selectedMaterial initial_state < length (materials initial_state) \<and>
   (0::real) < 300 \<and> (0::real) < 8.617 / 10 ^ 5 \<and>
   (\<exists>r. calculateConcentrations initial_state = Inr r \<and>
      r_ni r = js_mul (Math_sqrt (Fin (2.8 * 10 ^ 19 * (300 / 300) powr 1.5
                                        * (1.04 * 10 ^ 19 * (300 / 300) powr 1.5))))
                 (Fin (exp (- (1.12 + (- 2.73 / 10 ^ 4) * (300 - 300))
                            / (2 * (8.617 / 10 ^ 5) * 300)))))"
  using intrinsic_concentration_formula [of initial_state "1.12" "- 2.73 / 10 ^ 4"
      "2.8 * 10 ^ 19" "1.04 * 10 ^ 19" 300 "8.617 / 10 ^ 5"]
  by (simp add: initial_state_def defaultMaterials_def Let_def)

text \<open>
  Claim C7. The intrinsic concentration depends only on the selected material, the
  temperature and the Boltzmann constant: two states that agree on these return the same
  \<open>ni\<close>, whatever their donor and acceptor concentrations are.
\<close>

theorem ni_independent_of_doping:
  assumes "selectedMaterial st < length (materials st)"
    and "selectedMaterial st' < length (materials st')"
    and "materials st' ! selectedMaterial st' = materials st ! selectedMaterial st"
    and "temperature st' = temperature st" and "kB st' = kB st"
  shows "\<exists>r r'. calculateConcentrations st = Inr r \<and>
           calculateConcentrations st' = Inr r' \<and> r_ni r' = r_ni r"
proof -
  from assms(3-5) have "ni_js st' = ni_js st" by (simp add: ni_js_def)
  with calc_returns [OF assms(1)] calc_returns [OF assms(2)] show ?thesis by auto
qed

text \<open>The n-type and the p-type preset of the interface have the same \<open>ni\<close>.\<close>

theorem ni_independent_of_doping_witness:
  "selectedMaterial initial_state < length (materials initial_state) \<and>
   selectedMaterial (initial_state\<lparr>donorConc := Fin 0, acceptorConc := Fin (10 ^ 16)\<rparr>)
     < length (materials (initial_state\<lparr>donorConc := Fin 0, acceptorConc := Fin (10 ^ 16)\<rparr>)) \<and>
   (\<exists>r r'. calculateConcentrations initial_state = Inr r \<and>
      calculateConcentrations (initial_state\<lparr>donorConc := Fin 0, acceptorConc := Fin (10 ^ 16)\<rparr>)
        = Inr r' \<and> r_ni r' = r_ni r)"
  using ni_independent_of_doping
    [of initial_state "initial_state\<lparr>donorConc := Fin 0, acceptorConc := Fin (10 ^ 16)\<rparr>"]
  by (simp add: initial_state_def defaultMaterials_def)

section \<open>Equal donor and acceptor concentrations\<close>

text \<open>
  The branch of the source is Intrinsic exactly when \<open>|netDoping| < ni\<close> holds for the
  \<open>ni\<close> it has computed (\<open>calc_intrinsic\<close>), n-type when otherwise \<open>netDoping > 0\<close>, and
  p-type in every remaining case: the last branch is a bare \<open>else\<close>, without the test
  \<open>netDoping < 0\<close> that mirrors the one of the n-type branch. A net doping of 0 with an
  \<open>ni\<close> of 0 therefore runs the p-type branch.

  Claim C6 says that the regime is Intrinsic with a Fermi level offset of 0 whenever
  the donor and the acceptor concentration are equal. In the state with \<open>ni = 0\<close> and no
  donors and no acceptors, the undoped preset of the interface, the program returns a
  p-type result with \<open>n = NaN\<close> and an offset of \<open>NaN\<close>.
\<close>

theorem undoped_is_p_type:
  "calculateConcentrations (degenerate_state 0) =
     Inr \<lparr>r_ni = Fin 0, r_n = NaN, r_p = Fin 0, r_fermiLevel = NaN,
          r_conductionType = ''p-type''\<rparr>"
  by (rule degenerate_calc)

text \<open>
  With equal finite concentrations and any \<open>ni\<close> above 0 the branch is the Intrinsic one.
\<close>

lemma regime_equal_doping:
  "js_lt (Fin 0) ni \<Longrightarrow>
   regime ni (js_sub (Fin d) (Fin d)) k T =
     \<lparr>r_ni = ni, r_n = ni, r_p = ni, r_fermiLevel = Fin 0,
      r_conductionType = ''Intrinsic''\<rparr>"
  by (simp add: regime_def js_sub_def)

text \<open>
  Claim C9 says that exchanging the donor and the acceptor concentration exchanges
  \<open>n\<close> and \<open>p\<close>, negates the Fermi level offset and mirrors the conduction type. In the
  state with \<open>ni = 0\<close> and both concentrations \<open>1e16\<close>, the state and its exchange return
  the same p-type result with \<open>n = NaN\<close> and \<open>p = 0\<close>: the type is not mirrored and the
  electron concentration of the one is not the hole concentration of the other. For a
  net doping other than 0 the branch is symmetric, whatever \<open>ni\<close> is (\<open>regime_swap\<close>).
\<close>

theorem swap_not_mirrored:
  "calculateConcentrations (degenerate_state (10 ^ 16)) =
     Inr \<lparr>r_ni = Fin 0, r_n = NaN, r_p = Fin 0, r_fermiLevel = NaN,
          r_conductionType = ''p-type''\<rparr> \<and>
   calculateConcentrations
     ((degenerate_state (10 ^ 16))
        \<lparr>donorConc := acceptorConc (degenerate_state (10 ^ 16)),
         acceptorConc := donorConc (degenerate_state (10 ^ 16))\<rparr>) =
     Inr \<lparr>r_ni = Fin 0, r_n = NaN, r_p = Fin 0, r_fermiLevel = NaN,
          r_conductionType = ''p-type''\<rparr>"
proof -
  have "(degenerate_state (10 ^ 16))
          \<lparr>donorConc := acceptorConc (degenerate_state (10 ^ 16)),
           acceptorConc := donorConc (degenerate_state (10 ^ 16))\<rparr>
        = degenerate_state (10 ^ 16)"
    by (simp add: degenerate_state_def)
  then show ?thesis by (simp add: degenerate_calc)
qed

section \<open>Dependence on the net doping\<close>

text \<open>
  Claim C10. The result depends on the donor and acceptor concentrations only through
  their difference: adding the same finite number \<open>c\<close> to both leaves the whole outcome
  of the solver unchanged, on every state and for every \<open>c\<close> (in particular for
  \<open>c \<ge> 0\<close>).
\<close>

theorem depends_on_net_doping_only:
  "calculateConcentrations
     (st\<lparr>donorConc := js_add (donorConc st) (Fin c),
         acceptorConc := js_add (acceptorConc st) (Fin c)\<rparr>)
   = calculateConcentrations st"
proof -
  let ?st' = "st\<lparr>donorConc := js_add (donorConc st) (Fin c),
                 acceptorConc := js_add (acceptorConc st) (Fin c)\<rparr>"
  have sel: "materials ?st' = materials st" "selectedMaterial ?st' = selectedMaterial st"
    "temperature ?st' = temperature st" "kB ?st' = kB st"
    "js_sub (donorConc ?st') (acceptorConc ?st') = js_sub (donorConc st) (acceptorConc st)"
    by (simp_all add: js_sub_shift)
  show ?thesis
    unfolding calculateConcentrations_def by (simp only: sel)
qed

section \<open>Inputs outside the physical range\<close>

text \<open>
  Claim C2 says that the solver raises a DomainError for a temperature or a Boltzmann
  constant that is not positive and for a negative concentration. The program checks
  none of its inputs. From the initial state, with the temperature set to 0 or to -10,
  with the Boltzmann constant set to 0, or with the donor concentration set to -1, it
  returns the complete results below: \<open>NaN\<close> and zero fields in the first three cases,
  the intrinsic result in the last.
\<close>

theorem no_domain_error_counterexample:
  "calculateConcentrations (initial_state\<lparr>temperature := Fin 0\<rparr>) =
     Inr \<lparr>r_ni = Fin 0, r_n = Fin (10 ^ 16), r_p = Fin 0, r_fermiLevel = NaN,
          r_conductionType = ''n-type''\<rparr> \<and>
   calculateConcentrations (initial_state\<lparr>temperature := Fin (- 10)\<rparr>) =
     Inr \<lparr>r_ni = NaN, r_n = Fin (10 ^ 16), r_p = NaN, r_fermiLevel = NaN,
          r_conductionType = ''n-type''\<rparr> \<and>
   calculateConcentrations (initial_state\<lparr>kB := Fin 0\<rparr>) =
     Inr \<lparr>r_ni = Fin 0, r_n = Fin (10 ^ 16), r_p = Fin 0, r_fermiLevel = NaN,
          r_conductionType = ''n-type''\<rparr> \<and>
   calculateConcentrations (initial_state\<lparr>donorConc := Fin (- 1)\<rparr>) =
     Inr \<lparr>r_ni = Fin (ni_real 1.12 (- 2.73 / 10 ^ 4) (2.8 * 10 ^ 19) (1.04 * 10 ^ 19)
                        (8.617 / 10 ^ 5) 300),
          r_n = Fin (ni_real 1.12 (- 2.73 / 10 ^ 4) (2.8 * 10 ^ 19) (1.04 * 10 ^ 19)
                        (8.617 / 10 ^ 5) 300),
          r_p = Fin (ni_real 1.12 (- 2.73 / 10 ^ 4) (2.8 * 10 ^ 19) (1.04 * 10 ^ 19)
                        (8.617 / 10 ^ 5) 300),
          r_fermiLevel = Fin 0, r_conductionType = ''Intrinsic''\<rparr>"
proof -
  have sh: "ToBoolean (js_shr (Fin (10 ^ 16)) (Fin 0))"
       "ToBoolean (js_shr (Fin (10 ^ 16)) NaN)"
    by (simp_all add: js_shr_def ToInt32_def js_trunc_def)
  have t0: "calculateConcentrations (initial_state\<lparr>temperature := Fin 0\<rparr>) =
     Inr \<lparr>r_ni = Fin 0, r_n = Fin (10 ^ 16), r_p = Fin 0, r_fermiLevel = NaN,
          r_conductionType = ''n-type''\<rparr>"
    using sh
    by (simp add: calculateConcentrations_def initial_state_def defaultMaterials_def
        js_sub_def js_gt_def js_inf_def Let_def)
  have t10: "calculateConcentrations (initial_state\<lparr>temperature := Fin (- 10)\<rparr>) =
     Inr \<lparr>r_ni = NaN, r_n = Fin (10 ^ 16), r_p = NaN, r_fermiLevel = NaN,
          r_conductionType = ''n-type''\<rparr>"
    using sh
    by (simp add: calculateConcentrations_def initial_state_def defaultMaterials_def
        js_sub_def js_gt_def js_inf_def is_integral_def Let_def)
  have k0: "calculateConcentrations (initial_state\<lparr>kB := Fin 0\<rparr>) =
     Inr \<lparr>r_ni = Fin 0, r_n = Fin (10 ^ 16), r_p = Fin 0, r_fermiLevel = NaN,
          r_conductionType = ''n-type''\<rparr>"
    using sh
    by (simp add: calculateConcentrations_def initial_state_def defaultMaterials_def
        js_sub_def js_gt_def js_inf_def Let_def)
  have "calculateConcentrations (initial_state\<lparr>donorConc := Fin (- 1)\<rparr>) =
     Inr (finite_results (8.617 / 10 ^ 5) 300
            (ni_real 1.12 (- 2.73 / 10 ^ 4) (2.8 * 10 ^ 19) (1.04 * 10 ^ 19)
               (8.617 / 10 ^ 5) 300) (- 1 - 0))"
    by (intro calc_finite) (simp_all add: initial_state_def defaultMaterials_def)
  then have d1: "calculateConcentrations (initial_state\<lparr>donorConc := Fin (- 1)\<rparr>) =
     Inr \<lparr>r_ni = Fin (ni_real 1.12 (- 2.73 / 10 ^ 4) (2.8 * 10 ^ 19) (1.04 * 10 ^ 19)
                        (8.617 / 10 ^ 5) 300),
          r_n = Fin (ni_real 1.12 (- 2.73 / 10 ^ 4) (2.8 * 10 ^ 19) (1.04 * 10 ^ 19)
                        (8.617 / 10 ^ 5) 300),
          r_p = Fin (ni_real 1.12 (- 2.73 / 10 ^ 4) (2.8 * 10 ^ 19) (1.04 * 10 ^ 19)
                        (8.617 / 10 ^ 5) 300),
          r_fermiLevel = Fin 0, r_conductionType = ''Intrinsic''\<rparr>"
    using silicon_ni_gt_1 by (simp add: finite_results_def)
  from t0 t10 k0 d1 show ?thesis by blast
qed

text \<open>
  Claim C2, as the program has it. Whatever the temperature, the Boltzmann constant and
  the concentrations are, the solver returns a complete result as soon as the selected
  material exists; it fails only when the selected index is outside the list of
  materials, with the TypeError of the field read, and no result.
\<close>

theorem returns_unless_index_out_of_range:
  "(selectedMaterial st < length (materials st) \<longrightarrow>
      (\<exists>r. calculateConcentrations st = Inr r)) \<and>
   (\<not> selectedMaterial st < length (materials st) \<longrightarrow>
      calculateConcentrations st = Inl TypeError)"
proof (cases "selectedMaterial st < length (materials st)")
  case True
  with calc_returns [OF True] show ?thesis by blast
next
  case False
  then have "calculateConcentrations st = Inl TypeError"
    by (simp add: calculateConcentrations_def)
  with False show ?thesis by blast
qed

text \<open>Both cases occur: a temperature of 0, and an index behind the three materials.\<close>

theorem returns_unless_index_out_of_range_witness:
  "selectedMaterial (initial_state\<lparr>temperature := Fin 0\<rparr>)
     < length (materials (initial_state\<lparr>temperature := Fin 0\<rparr>)) \<and>
   (\<exists>r. calculateConcentrations (initial_state\<lparr>temperature := Fin 0\<rparr>) = Inr r) \<and>
   \<not> selectedMaterial (initial_state\<lparr>selectedMaterial := 3\<rparr>)
       < length (materials (initial_state\<lparr>selectedMaterial := 3\<rparr>)) \<and>
   calculateConcentrations (initial_state\<lparr>selectedMaterial := 3\<rparr>) = Inl TypeError"
  using returns_unless_index_out_of_range [of "initial_state\<lparr>temperature := Fin 0\<rparr>"]
    returns_unless_index_out_of_range [of "initial_state\<lparr>selectedMaterial := 3\<rparr>"]
  by (simp add: initial_state_def defaultMaterials_def)

section \<open>The test between the approximation and the exact solution\<close>

text \<open>
  The source chooses the approximation \<open>n = netDoping\<close> when \<open>netDoping >> ni\<close> is
  truthy, and \<open>>>\<close> is the signed right shift of JavaScript: the condition is that the
  32-bit integer part of \<open>netDoping\<close>, shifted right by the low five bits of the integer
  part of \<open>ni\<close>, is not zero.

  Claim C3 says that the approximation is applied only when the net doping exceeds
  \<open>ni\<close> by orders of magnitude. In the state with \<open>ni = 1\<close> and a donor concentration of
  2 the test is \<open>2 >> 1 = 1\<close>, and the program returns the approximate \<open>n = 2\<close>,
  \<open>p = 1/2\<close> at a net doping of only twice \<open>ni\<close>; at a net doping of \<open>2^32\<close> times
  \<open>ni\<close> the test is \<open>0\<close>, the exact branch.
\<close>

theorem approximation_at_twice_ni:
  "calculateConcentrations (edited_state 1 2) =
     Inr \<lparr>r_ni = Fin 1, r_n = Fin 2, r_p = Fin (1 / 2),
          r_fermiLevel = Fin (8.617 / 10 ^ 5 * 300 * ln 2),
          r_conductionType = ''n-type''\<rparr> \<and>
   ToBoolean (js_shr (Fin 2) (Fin 1)) \<and>
   \<not> ToBoolean (js_shr (Fin (2 ^ 32)) (Fin 1))"
  using shr_2_1 shr_big
  by (simp add: edited_calc finite_results_def majority_def)

text \<open>
  The n-type regime in the exact arithmetic of the model, for finite inputs with a
  positive temperature, Boltzmann constant and densities of states, and
  \<open>netDoping \<ge> ni\<close>: the conduction type is n-type, \<open>p = ni * ni / n\<close>, and the Fermi
  level offset is \<open>kB * T * ln (n / ni)\<close>, never negative. Where the test of the source
  is falsy, \<open>n\<close> is the exact solution
  \<open>(netDoping + sqrt (netDoping * netDoping + 4 * ni * ni)) / 2\<close> and the offset is
  positive.
\<close>

lemma n_type_regime:
  assumes idx: "selectedMaterial st < length (materials st)"
    and eg: "bandgap (materials st ! selectedMaterial st) = Fin eg"
    and tc: "temperatureCoeff (materials st ! selectedMaterial st) = Fin tc"
    and nc: "Nc300 (materials st ! selectedMaterial st) = Fin nc"
    and nv: "Nv300 (materials st ! selectedMaterial st) = Fin nv"
    and T: "temperature st = Fin T" and k: "kB st = Fin k"
    and d: "donorConc st = Fin d" and a: "acceptorConc st = Fin a"
    and pos: "0 < T" "0 < k" "0 < nc" "0 < nv"
    and r: "calculateConcentrations st = Inr r" and ni: "r_ni r = Fin ni"
    and reg: "ni \<le> d - a"
  shows "r_conductionType r = ''n-type'' \<and>
         (\<exists>n. r_n r = Fin n \<and> r_p r = Fin (ni * ni / n) \<and>
            r_fermiLevel r = Fin (k * T * ln (n / ni)) \<and> 0 \<le> k * T * ln (n / ni) \<and>
            (\<not> ToBoolean (js_shr (Fin (d - a)) (Fin ni)) \<longrightarrow>
               n = (d - a + sqrt ((d - a) * (d - a) + 4 * ni * ni)) / 2 \<and>
               0 < k * T * ln (n / ni)))"
proof -
  let ?ni' = "ni_real eg tc nc nv k T"
  have c: "calculateConcentrations st = Inr (finite_results k T ?ni' (d - a))"
    using idx eg tc nc nv T k d a pos by (rule calc_finite)
  have nipos': "0 < ?ni'" using pos by (simp add: ni_real_pos)
  from c r have res': "r = finite_results k T ?ni' (d - a)" by simp
  with ni have nieq: "?ni' = ni" by (simp add: finite_results_ni)
  from res' nieq have res: "r = finite_results k T ni (d - a)" by simp
  from nipos' nieq have nipos: "0 < ni" by simp
  let ?nd = "d - a"
  let ?n = "majority ?nd ni"
  have nd: "0 < ?nd" "\<not> \<bar>?nd\<bar> < ni" using reg nipos by simp_all
  have ge: "ni \<le> ?n" using majority_ge [OF nd(1), of ni] reg by linarith
  then have q: "1 \<le> ?n / ni" using nipos by simp
  have kT: "0 < k * T" using pos by simp
  have l0: "0 \<le> k * T * ln (?n / ni)" using q kT by simp
  have ex: "?n = (?nd + sqrt (?nd * ?nd + 4 * ni * ni)) / 2 \<and> 0 < k * T * ln (?n / ni)"
    if t: "\<not> ToBoolean (js_shr (Fin ?nd) (Fin ni))"
  proof -
    from majority_exact_gt [OF nipos nd(1) t]
    have e: "?n = (?nd + sqrt (?nd * ?nd + 4 * ni * ni)) / 2" and g: "?nd < ?n" by simp_all
    from g reg have "ni < ?n" by linarith
    then have "1 < ?n / ni" using nipos by simp
    then have "0 < ln (?n / ni)" by simp
    with kT e show ?thesis by simp
  qed
  have "r_conductionType r = ''n-type''" "r_n r = Fin ?n" "r_p r = Fin (ni * ni / ?n)"
    "r_fermiLevel r = Fin (k * T * ln (?n / ni))"
    using nd by (simp_all add: res finite_results_def)
  with l0 ex show ?thesis by blast
qed

text \<open>
  Claim C5 says that the Fermi level offset is positive in the whole n-type regime. In
  the state with \<open>ni = 33\<close> and a donor concentration of 33 the test is
  \<open>33 >> 1 = 16\<close>, the approximation gives \<open>n = netDoping = ni\<close>, and the offset is
  \<open>kB * T * ln 1 = 0\<close> in an n-type result.
\<close>

theorem fermi_zero_at_boundary:
  "calculateConcentrations (edited_state 33 33) =
     Inr \<lparr>r_ni = Fin 33, r_n = Fin 33, r_p = Fin 33, r_fermiLevel = Fin 0,
          r_conductionType = ''n-type''\<rparr>"
  using shr_33
  by (simp add: edited_calc finite_results_def majority_def)

text \<open>
  Claim C8 says that the electron concentration never decreases when the donor
  concentration increases, and that the Fermi level offset is non-decreasing in the net
  doping. In the state with \<open>ni = 9/8\<close> and no acceptors, a donor concentration of
  \<open>27/16\<close> takes the exact branch and gives \<open>n = 9/4\<close>; the larger donor concentration 2
  takes the approximate branch and gives the smaller \<open>n = 2\<close>, with a smaller offset.
\<close>

theorem electrons_decrease:
  "calculateConcentrations (edited_state (9 / 8) (27 / 16)) =
     Inr \<lparr>r_ni = Fin (9 / 8), r_n = Fin (9 / 4), r_p = Fin (9 / 16),
          r_fermiLevel = Fin (8.617 / 10 ^ 5 * 300 * ln 2),
          r_conductionType = ''n-type''\<rparr> \<and>
   calculateConcentrations (edited_state (9 / 8) 2) =
     Inr \<lparr>r_ni = Fin (9 / 8), r_n = Fin 2, r_p = Fin (81 / 128),
          r_fermiLevel = Fin (8.617 / 10 ^ 5 * 300 * ln (16 / 9)),
          r_conductionType = ''n-type''\<rparr> \<and>
   (2::real) < 9 / 4 \<and> ln (16 / 9) < ln (2::real)"
proof -
  have m1: "majority (27 / 16) (9 / 8) = 9 / 4"
    using shr_a by (simp add: majority_def sqrt_2025_256)
  have m2: "majority 2 (9 / 8) = 2"
    using shr_b by (simp add: majority_def)
  show ?thesis
    by (simp add: edited_calc finite_results_def m1 m2)
qed

end
